theory Spec2Isabelle
  imports Main
begin

section \<open>Strings as the handlers see them\<close>

text \<open>
  Header values and configuration values are JavaScript strings. HTTP header values reach
  the handlers as Latin-1 decoded byte strings, so one \<^typ>\<open>char\<close> stands for one code
  unit. A value that JavaScript tests with \<^verbatim>\<open>!x\<close> or \<^verbatim>\<open>x || y\<close> is "falsy" when
  it is \<^verbatim>\<open>undefined\<close>/\<^verbatim>\<open>null\<close> (here \<^term>\<open>None\<close>) or the empty string.
\<close>

definition truthy :: "string option \<Rightarrow> bool" where
  "truthy v = (case v of None \<Rightarrow> False | Some s \<Rightarrow> s \<noteq> [])"

text \<open>Splitting a string at every code unit that satisfies a test: the pieces between the
  separators, one piece (the empty one) for the empty string. \<^verbatim>\<open>s.split(c)\<close> for a
  one-character separator is the instance \<open>split_on\<close>.\<close>

fun split_where :: "(char \<Rightarrow> bool) \<Rightarrow> string \<Rightarrow> string list" where
  "split_where P [] = [[]]"
| "split_where P (x # xs) =
     (if P x then [] # split_where P xs
      else (case split_where P xs of
              [] \<Rightarrow> [[x]]
            | p # ps \<Rightarrow> (x # p) # ps))"

definition split_on :: "char \<Rightarrow> string \<Rightarrow> string list" where
  "split_on c s = split_where (\<lambda>x. x = c) s"

text \<open>\<^verbatim>\<open>s.split(' ', 2)\<close>: at most the first two pieces.\<close>

definition split_limit2 :: "string \<Rightarrow> string list" where
  "split_limit2 s = take 2 (split_on CHR '' '' s)"

text \<open>White space that \<^verbatim>\<open>String.prototype.trim\<close> removes, among the Latin-1 code units:
  TAB, LF, VT, FF, CR, SPACE and NBSP.\<close>

definition is_js_space :: "char \<Rightarrow> bool" where
  "is_js_space c = (of_char c \<in> {9, 10, 11, 12, 13, 32, 160 :: nat})"

definition trim :: "string \<Rightarrow> string" where
  "trim s = rev (dropWhile is_js_space (rev (dropWhile is_js_space s)))"

text \<open>\<^verbatim>\<open>toLowerCase\<close> on a Latin-1 code unit: A-Z and the accented capitals
  (0xC0-0xDE except the multiplication sign 0xD7) move up by 32.\<close>

definition lower_char :: "char \<Rightarrow> char" where
  "lower_char c =
     (let n = (of_char c :: nat) in
      if (65 \<le> n \<and> n \<le> 90) \<or> (192 \<le> n \<and> n \<le> 222 \<and> n \<noteq> 215)
      then char_of (n + 32) else c)"

definition toLowerCase :: "string \<Rightarrow> string" where
  "toLowerCase s = map lower_char s"

section \<open>Configuration, requests, responses\<close>

text \<open>The fields of \<^verbatim>\<open>UnifiedConfig\<close> that the modelled files read.\<close>

record config =
  NODE_ENV :: string
  MCP_PROTOCOL_VERSION :: string
  AUTH_ENABLED :: bool
  AUTH_RESOURCE_URI :: "string option"
  AUTH_STRATEGY :: string
  AUTH_REQUIRE_RS :: bool
  AUTH_ALLOW_DIRECT_BEARER :: bool
  AUTH_DISCOVERY_URL :: "string option"
  OAUTH_SCOPES :: string
  OAUTH_AUTHORIZATION_URL :: string
  OAUTH_TOKEN_URL :: string
  PORT :: nat

text \<open>What the security middleware reads of a request: the two headers it looks up by
  name, the request URL, and the remaining headers (for the validators).\<close>

record request =
  hdr_authorization :: "string option"
  hdr_mcp_session_id :: "string option"
  req_url :: string
  req_headers :: "(string \<times> string) list"

datatype payload =
    JsonRpcError int string
  | PlainText string
  | Opaque string

record response =
  status :: nat
  headers :: "(string \<times> string) list"
  payload :: payload

datatype log_level = Debug | Info | Error

datatype log_entry = Log log_level string string

section \<open>The security middleware (createMcpSecurityMiddleware)\<close>

text \<open>The provider credential of a token-store record, and the record itself
  (\<^verbatim>\<open>record?.provider\<close> may be missing).\<close>

record provider_tokens =
  access_token :: string
  refresh_token :: "string option"
  expires_at :: "int option"
  scopes :: "string list option"

record rs_record =
  provider :: "provider_tokens option"

record authContext =
  strategy :: string
  authHeaders_authorization :: string
  resolvedHeaders_authorization :: string
  providerToken :: string
  ctx_provider :: provider_tokens
  rsToken :: string

text \<open>
  The collaborators of the middleware that are not part of the modelled file. A function
  that can throw returns \<^term>\<open>Inl\<close> of the error's message.
  \<^item> \<^verbatim>\<open>validateOrigin\<close>, \<^verbatim>\<open>validateProtocolVersion\<close>: \<^term>\<open>Some msg\<close> when they throw;
  \<^item> \<^verbatim>\<open>new URL(s).origin\<close>;
  \<^item> \<^verbatim>\<open>randomUUID()\<close>: the id the call returns (called at most once per request);
  \<^item> \<^verbatim>\<open>getTokenStore().getByRsAccess(token)\<close>: throws, or returns a record or nothing;
  \<^item> the two parts of a challenge that the spec leaves open: the value of the
    \<^verbatim>\<open>WWW-Authenticate\<close> header (from the origin and the session id) and the JSON-RPC
    error of the body.
\<close>

record gate_env =
  validateOrigin :: "(string \<times> string) list \<Rightarrow> bool \<Rightarrow> string option"
  validateProtocolVersion :: "(string \<times> string) list \<Rightarrow> string \<Rightarrow> string option"
  url_origin :: "string \<Rightarrow> string + string"
  randomUUID :: string
  getByRsAccess :: "string \<Rightarrow> string + rs_record option"
  challenge_www_authenticate :: "string \<Rightarrow> string \<Rightarrow> string"
  challenge_error :: "int \<times> string"

record challenge =
  ch_status :: nat
  ch_www_authenticate :: string
  ch_body :: payload

text \<open>
  Modelled from the spec: \<^verbatim>\<open>buildUnauthorizedChallenge\<close> (shared/mcp/security.js) is not
  among the source files. The spec's data model gives a Challenge as status 401, a
  \<^verbatim>\<open>WWW-Authenticate\<close> header advertising the discovery metadata location and the session
  binding, and a JSON-RPC shaped error envelope as the body; the header's value and the
  error's code and message are not fixed by the spec and are taken from the environment.
\<close>

definition buildUnauthorizedChallenge :: "gate_env \<Rightarrow> string \<Rightarrow> string \<Rightarrow> challenge" where
  "buildUnauthorizedChallenge env origin sid =
     \<lparr> ch_status = 401,
       ch_www_authenticate = challenge_www_authenticate env origin sid,
       ch_body = JsonRpcError (fst (challenge_error env)) (snd (challenge_error env)) \<rparr>"

datatype gate_result =
    Respond response
  | Next "authContext option"

text \<open>The token the middleware extracts from a (non-empty) Authorization header:
  \<^verbatim>\<open>const [scheme, rsToken] = auth.split(' ', 2);
  const bearer = scheme && scheme.toLowerCase() === 'bearer' ? (rsToken || '').trim() : '';\<close>\<close>

definition auth_scheme :: "string \<Rightarrow> string" where
  "auth_scheme auth = (case split_limit2 auth of [] \<Rightarrow> [] | s # _ \<Rightarrow> s)"

definition auth_rsToken :: "string \<Rightarrow> string option" where
  "auth_rsToken auth = (case split_limit2 auth of _ # t # _ \<Rightarrow> Some t | _ \<Rightarrow> None)"

definition bearer_of :: "string \<Rightarrow> string" where
  "bearer_of auth =
     (if auth_scheme auth \<noteq> [] \<and> toLowerCase (auth_scheme auth) = ''bearer''
      then trim (case auth_rsToken auth of None \<Rightarrow> [] | Some t \<Rightarrow> if t = [] then [] else t)
      else [])"

text \<open>\<^verbatim>\<open>config.AUTH_RESOURCE_URI ? new URL(config.AUTH_RESOURCE_URI).origin
  : new URL(c.req.url).origin\<close>\<close>

definition challenge_origin :: "config \<Rightarrow> gate_env \<Rightarrow> request \<Rightarrow> string + string" where
  "challenge_origin cfg env req =
     (if truthy (AUTH_RESOURCE_URI cfg) then url_origin env (the (AUTH_RESOURCE_URI cfg))
      else url_origin env (req_url req))"

text \<open>The response of \<^verbatim>\<open>c.json(challenge.body, challenge.status)\<close> after the two
  \<^verbatim>\<open>c.header\<close> calls; only the headers this file sets are recorded.\<close>

definition challenge_response :: "gate_env \<Rightarrow> string \<Rightarrow> string \<Rightarrow> response" where
  "challenge_response env origin sid =
     (let ch = buildUnauthorizedChallenge env origin sid in
      \<lparr> status = ch_status ch,
        headers = [(''Mcp-Session-Id'', sid), (''WWW-Authenticate'', ch_www_authenticate ch)],
        payload = ch_body ch \<rparr>)"

text \<open>The outer \<^verbatim>\<open>catch\<close>: log, and answer 500 with the JSON-RPC code -32603.\<close>

definition security_check_failed :: "string \<Rightarrow> gate_result \<times> log_entry list" where
  "security_check_failed msg =
     (Respond \<lparr> status = 500, headers = [],
                payload = JsonRpcError (- 32603)
                            (if msg = [] then ''Internal server error'' else msg) \<rparr>,
      [Log Error ''Security check failed'' msg])"

text \<open>The branch for a request without Authorization header (\<^verbatim>\<open>if (!auth)\<close>).\<close>

definition challenge_no_auth :: "config \<Rightarrow> gate_env \<Rightarrow> request \<Rightarrow> gate_result \<times> log_entry list" where
  "challenge_no_auth cfg env req =
     (let generated = \<not> truthy (hdr_mcp_session_id req);
          sid = (if generated then randomUUID env else the (hdr_mcp_session_id req));
          lg = (if generated then [Log Debug ''Generated session ID'' sid] else [])
      in case challenge_origin cfg env req of
           Inl msg \<Rightarrow> (fst (security_check_failed msg), lg @ snd (security_check_failed msg))
         | Inr origin \<Rightarrow> (Respond (challenge_response env origin sid), lg))"

text \<open>The inner \<^verbatim>\<open>catch\<close>: log and fall through to \<^verbatim>\<open>next()\<close>.\<close>

definition token_lookup_failed :: "string \<Rightarrow> gate_result \<times> log_entry list" where
  "token_lookup_failed msg = (Next None, [Log Error ''Token lookup failed'' msg])"

text \<open>The branch for an extracted bearer token (\<^verbatim>\<open>if (bearer) { try { ... } catch ... }\<close>).
  The challenge of the not-found branch is built inside the inner \<^verbatim>\<open>try\<close>, so a throwing
  \<^verbatim>\<open>new URL\<close> there is caught by the inner \<^verbatim>\<open>catch\<close> as well. Its session id is
  \<^verbatim>\<open>c.req.header('Mcp-Session-Id') ?? randomUUID()\<close>: only a missing header is replaced.\<close>

definition lookup_bearer ::
  "config \<Rightarrow> gate_env \<Rightarrow> request \<Rightarrow> string \<Rightarrow> string \<Rightarrow> gate_result \<times> log_entry list" where
  "lookup_bearer cfg env req auth bearer =
     (case getByRsAccess env bearer of
        Inl msg \<Rightarrow> token_lookup_failed msg
      | Inr rec \<Rightarrow>
          (case (case rec of None \<Rightarrow> None | Some r \<Rightarrow> provider r) of
             Some p \<Rightarrow>
               (Next (Some \<lparr> strategy = AUTH_STRATEGY cfg,
                              authHeaders_authorization = auth,
                              resolvedHeaders_authorization = ''Bearer '' @ access_token p,
                              providerToken = access_token p,
                              ctx_provider = \<lparr> access_token = access_token p,
                                               refresh_token = refresh_token p,
                                               expires_at = expires_at p,
                                               scopes = scopes p \<rparr>,
                              rsToken = bearer \<rparr>), [])
           | None \<Rightarrow>
               if AUTH_REQUIRE_RS cfg \<and> \<not> AUTH_ALLOW_DIRECT_BEARER cfg then
                 (let sid = (case hdr_mcp_session_id req of None \<Rightarrow> randomUUID env | Some s \<Rightarrow> s)
                  in case challenge_origin cfg env req of
                       Inl msg \<Rightarrow> token_lookup_failed msg
                     | Inr origin \<Rightarrow>
                         (Respond (challenge_response env origin sid),
                          [Log Debug ''RS token not found, challenging'' []]))
               else (Next None, [])))"

definition createMcpSecurityMiddleware ::
  "config \<Rightarrow> gate_env \<Rightarrow> request \<Rightarrow> gate_result \<times> log_entry list" where
  "createMcpSecurityMiddleware cfg env req =
     (case validateOrigin env (req_headers req) (NODE_ENV cfg = ''development'') of
        Some msg \<Rightarrow> security_check_failed msg
      | None \<Rightarrow>
     (case validateProtocolVersion env (req_headers req) (MCP_PROTOCOL_VERSION cfg) of
        Some msg \<Rightarrow> security_check_failed msg
      | None \<Rightarrow>
          if AUTH_ENABLED cfg then
            (if \<not> truthy (hdr_authorization req) then challenge_no_auth cfg env req
             else
               (let auth = the (hdr_authorization req); bearer = bearer_of auth
                in if bearer \<noteq> [] then lookup_bearer cfg env req auth bearer
                   else (Next None, [])))
          else (Next None, [])))"

section \<open>The MCP routes (buildMcpRoutes)\<close>

text \<open>A parsed JSON value. The keys of a parsed object are distinct; numbers are kept as
  integers (only their being zero or not is read).\<close>

datatype json =
    JNull
  | JBool bool
  | JNum int
  | JStr string
  | JArr "json list"
  | JObj "(string \<times> json) list"

fun json_truthy :: "json \<Rightarrow> bool" where
  "json_truthy JNull = False"
| "json_truthy (JBool b) = b"
| "json_truthy (JNum n) = (n \<noteq> 0)"
| "json_truthy (JStr s) = (s \<noteq> [])"
| "json_truthy (JArr _) = True"
| "json_truthy (JObj _) = True"

datatype http_method = POST | GET | DELETE

text \<open>What a route handler reads of a request: the session header, the result of
  \<^verbatim>\<open>c.req.json()\<close> (\<^term>\<open>None\<close> when it throws) and the auth context the security
  middleware attached.\<close>

record mcp_request =
  mcp_session_header :: "string option"
  mcp_body :: "json option"
  mcp_authContext :: "authContext option"

text \<open>
  Transport objects are compared by identity (the registry is a \<^verbatim>\<open>Map\<close> to them, the
  connect guard a \<^verbatim>\<open>WeakSet\<close> of them), so a transport is an address. What the handlers do
  to their collaborators is recorded as a trace of events.
\<close>

datatype event =
    ConnectCall nat
  | HandleRequest nat http_method
  | CloseCall nat
  | ContextCreate json "string option" "authContext option"
  | Logged log_level string string

text \<open>
  The state the handlers share:
  \<^item> \<open>transports\<close>: the registry \<^verbatim>\<open>Map<string, StreamableHTTPServerTransport>\<close>;
  \<^item> \<open>connectedTransports\<close>: the \<^verbatim>\<open>WeakSet\<close> of connected transports;
  \<^item> \<open>init_callback\<close>: for a transport that the POST handler constructed for an initialize
    request, the session id its \<^verbatim>\<open>sessionIdGenerator\<close> and \<^verbatim>\<open>onsessioninitialized\<close>
    closures hold;
  \<^item> \<open>next_transport\<close>: the address of the next transport object to be constructed;
  \<^item> \<open>events\<close>: the trace.
\<close>

record routes_state =
  transports :: "string \<rightharpoonup> nat"
  connectedTransports :: "nat set"
  init_callback :: "nat \<rightharpoonup> string"
  next_transport :: nat
  events :: "event list"

text \<open>
  The MCP SDK and the runtime, as far as the handlers call them; each may depend on what
  happened before (the trace).
  \<^item> \<^verbatim>\<open>server.connect(transport)\<close>: \<^term>\<open>Some msg\<close> when it rejects;
  \<^item> \<^verbatim>\<open>transport.handleRequest(req, res, body)\<close>: throws (\<^term>\<open>Inl\<close>), or leaves a response
    for \<^verbatim>\<open>toFetchResponse(res)\<close>; the flag tells whether the transport called
    \<^verbatim>\<open>onsessioninitialized\<close> meanwhile, which the SDK does only while it handles the POST
    that initialises a session, with the id of its \<^verbatim>\<open>sessionIdGenerator\<close>;
  \<^item> \<^verbatim>\<open>randomUUID()\<close>.
\<close>

record sdk_env =
  server_connect :: "event list \<Rightarrow> nat \<Rightarrow> string option"
  transport_handleRequest ::
    "event list \<Rightarrow> nat \<Rightarrow> http_method \<Rightarrow> json option \<Rightarrow> string + (response \<times> bool)"
  route_randomUUID :: "event list \<Rightarrow> string"

definition record_event :: "event \<Rightarrow> routes_state \<Rightarrow> routes_state" where
  "record_event e s = s\<lparr> events := events s @ [e] \<rparr>"

text \<open>\<^verbatim>\<open>if (!connectedTransports.has(transport)) { await server.connect(transport);
  connectedTransports.add(transport); }\<close>. The result is \<^term>\<open>Some msg\<close> when
  \<^verbatim>\<open>server.connect\<close> rejected: the transport is then not added to the set.\<close>

definition ensureConnected :: "sdk_env \<Rightarrow> nat \<Rightarrow> routes_state \<Rightarrow> string option \<times> routes_state" where
  "ensureConnected sdk t s =
     (if t \<notin> connectedTransports s then
        (case server_connect sdk (events s) t of
           Some msg \<Rightarrow> (Some msg, record_event (ConnectCall t) s)
         | None \<Rightarrow>
             (None, (record_event (ConnectCall t) s)
                      \<lparr> connectedTransports := insert t (connectedTransports s) \<rparr>))
      else (None, s))"

text \<open>What a route handler answers: a response it builds itself, or the response the
  transport wrote, passed on by \<^verbatim>\<open>toFetchResponse(res)\<close>.\<close>

datatype route_response =
    Reply response
  | TransportReply response

definition no_session_response :: response where
  "no_session_response =
     \<lparr> status = 405, headers = [],
       payload = JsonRpcError (- 32000) ''Method not allowed - no session'' \<rparr>"

definition invalid_session_response :: response where
  "invalid_session_response = \<lparr> status = 404, headers = [], payload = PlainText ''Invalid session'' \<rparr>"

definition internal_error_response :: response where
  "internal_error_response =
     \<lparr> status = 500, headers = [], payload = JsonRpcError (- 32603) ''Internal server error'' \<rparr>"

text \<open>The \<^verbatim>\<open>catch\<close> of a handler: log the error and answer 500.\<close>

definition handler_failed ::
  "string \<Rightarrow> string \<Rightarrow> routes_state \<Rightarrow> route_response \<times> routes_state" where
  "handler_failed what msg s = (Reply internal_error_response, record_event (Logged Error what msg) s)"

text \<open>\<^verbatim>\<open>Boolean(body && body.method === 'initialize')\<close>\<close>

definition isInitialize :: "json option \<Rightarrow> bool" where
  "isInitialize body =
     (case body of
        Some (JObj kvs) \<Rightarrow> map_of kvs ''method'' = Some (JStr ''initialize'')
      | _ \<Rightarrow> False)"

text \<open>\<^verbatim>\<open>body && typeof body === 'object' && 'id' in body && body.id\<close>: the id when the test
  succeeds.\<close>

definition body_id :: "json option \<Rightarrow> json option" where
  "body_id body =
     (case body of
        Some (JObj kvs) \<Rightarrow>
          (case map_of kvs ''id'' of
             Some v \<Rightarrow> if json_truthy v then Some v else None
           | None \<Rightarrow> None)
      | _ \<Rightarrow> None)"

text \<open>The POST handler. A request whose session header does not resolve to a registered
  transport gets a newly constructed one, whether or not it is an initialize request; only
  for an initialize request the new transport has a session id generator and registers
  itself when the session is initialised.\<close>

definition mcp_post ::
  "sdk_env \<Rightarrow> mcp_request \<Rightarrow> routes_state \<Rightarrow> route_response \<times> routes_state" where
  "mcp_post sdk req s =
     (let sessionIdHeader = mcp_session_header req;
          body = mcp_body req;
          isInit = isInitialize body;
          plannedSid =
            (if isInit
             then Some (if truthy sessionIdHeader then the sessionIdHeader
                        else route_randomUUID sdk (events s))
             else None);
          s0 = record_event (Logged Info ''Processing MCP request'' []) s;
          found = (if truthy sessionIdHeader then transports s0 (the sessionIdHeader) else None);
          t = (case found of Some t' \<Rightarrow> t' | None \<Rightarrow> next_transport s0);
          s1 = (case found of
                  Some _ \<Rightarrow> s0
                | None \<Rightarrow>
                    s0\<lparr> next_transport := Suc (next_transport s0),
                        init_callback :=
                          (case plannedSid of
                             Some sid \<Rightarrow> (init_callback s0)(next_transport s0 \<mapsto> sid)
                           | None \<Rightarrow> (init_callback s0)(next_transport s0 := None)) \<rparr>);
          s2 = (case body_id body of
                  Some i \<Rightarrow> record_event (ContextCreate i plannedSid (mcp_authContext req)) s1
                | None \<Rightarrow> s1)
      in case ensureConnected sdk t s2 of
           (Some msg, s3) \<Rightarrow> handler_failed ''Error handling POST request'' msg s3
         | (None, s3) \<Rightarrow>
             (case transport_handleRequest sdk (events s3) t POST body of
                Inl msg \<Rightarrow>
                  handler_failed ''Error handling POST request'' msg
                    (record_event (HandleRequest t POST) s3)
              | Inr (resp, initialised) \<Rightarrow>
                  (let s4 = record_event (HandleRequest t POST) s3;
                       s5 = (case (if initialised then init_callback s4 t else None) of
                               Some sid \<Rightarrow>
                                 (record_event (Logged Info ''Session initialized'' sid) s4)
                                   \<lparr> transports := (transports s4)(sid \<mapsto> t) \<rparr>
                             | None \<Rightarrow> s4)
                   in (TransportReply resp, s5))))"

text \<open>The GET handler.\<close>

definition mcp_get ::
  "sdk_env \<Rightarrow> mcp_request \<Rightarrow> routes_state \<Rightarrow> route_response \<times> routes_state" where
  "mcp_get sdk req s =
     (if \<not> truthy (mcp_session_header req) then (Reply no_session_response, s)
      else
        (case transports s (the (mcp_session_header req)) of
           None \<Rightarrow> (Reply invalid_session_response, s)
         | Some t \<Rightarrow>
             (case ensureConnected sdk t s of
                (Some msg, s1) \<Rightarrow> handler_failed ''Error handling GET request'' msg s1
              | (None, s1) \<Rightarrow>
                  (case transport_handleRequest sdk (events s1) t GET None of
                     Inl msg \<Rightarrow>
                       handler_failed ''Error handling GET request'' msg
                         (record_event (HandleRequest t GET) s1)
                   | Inr (resp, _) \<Rightarrow> (TransportReply resp, record_event (HandleRequest t GET) s1)))))"

text \<open>The DELETE handler: after the transport handled the request, the session id is
  deleted from the registry and the transport closed.\<close>

definition mcp_delete ::
  "sdk_env \<Rightarrow> mcp_request \<Rightarrow> routes_state \<Rightarrow> route_response \<times> routes_state" where
  "mcp_delete sdk req s =
     (if \<not> truthy (mcp_session_header req) then (Reply no_session_response, s)
      else
        (case transports s (the (mcp_session_header req)) of
           None \<Rightarrow> (Reply invalid_session_response, s)
         | Some t \<Rightarrow>
             (case ensureConnected sdk t s of
                (Some msg, s1) \<Rightarrow> handler_failed ''Error handling DELETE request'' msg s1
              | (None, s1) \<Rightarrow>
                  (case transport_handleRequest sdk (events s1) t DELETE None of
                     Inl msg \<Rightarrow>
                       handler_failed ''Error handling DELETE request'' msg
                         (record_event (HandleRequest t DELETE) s1)
                   | Inr (resp, _) \<Rightarrow>
                       (TransportReply resp,
                        record_event (CloseCall t)
                          ((record_event (HandleRequest t DELETE) s1)
                             \<lparr> transports := (transports s1)((the (mcp_session_header req)) := None) \<rparr>))))))"

text \<open>The route tree: \<^verbatim>\<open>app.post('/')\<close>, \<^verbatim>\<open>app.get('/')\<close>, \<^verbatim>\<open>app.delete('/')\<close>.\<close>

fun buildMcpRoutes ::
  "sdk_env \<Rightarrow> http_method \<Rightarrow> mcp_request \<Rightarrow> routes_state \<Rightarrow> route_response \<times> routes_state" where
  "buildMcpRoutes sdk POST req s = mcp_post sdk req s"
| "buildMcpRoutes sdk GET req s = mcp_get sdk req s"
| "buildMcpRoutes sdk DELETE req s = mcp_delete sdk req s"

text \<open>How often \<^verbatim>\<open>server.connect\<close> was invoked with a transport.\<close>

definition connect_invocations :: "nat \<Rightarrow> routes_state \<Rightarrow> nat" where
  "connect_invocations t s = count_list (events s) (ConnectCall t)"

section \<open>Token endpoint input (parseTokenInput, buildTokenInput)\<close>

text \<open>A \<^verbatim>\<open>URLSearchParams\<close> is its list of name-value pairs; \<^verbatim>\<open>get(name)\<close> is the
  value of the first pair with that name, or \<^verbatim>\<open>null\<close>.\<close>

type_synonym url_search_params = "(string \<times> string) list"

definition form_get :: "url_search_params \<Rightarrow> string \<Rightarrow> string option" where
  "form_get form name = map_of form name"

datatype token_input =
    RefreshTokenGrant string
  | AuthorizationCodeGrant string string

datatype token_result =
    ErrorResult string
  | Grant token_input

definition buildTokenInput :: "url_search_params \<Rightarrow> token_result" where
  "buildTokenInput form =
     (let grant = form_get form ''grant_type'' in
      if grant = Some ''refresh_token'' then
        (let refreshToken = form_get form ''refresh_token'' in
         if \<not> truthy refreshToken then ErrorResult ''missing_refresh_token''
         else Grant (RefreshTokenGrant (the refreshToken)))
      else if grant = Some ''authorization_code'' then
        (let code = form_get form ''code'';
             codeVerifier = form_get form ''code_verifier'' in
         if \<not> truthy code \<or> \<not> truthy codeVerifier then ErrorResult ''missing_code_or_verifier''
         else Grant (AuthorizationCodeGrant (the code) (the codeVerifier)))
      else ErrorResult ''unsupported_grant_type'')"








section \<open>Discovery metadata (createDiscoveryHandlers, buildAuthApp)\<close>

text \<open>A parsed \<^verbatim>\<open>URL\<close> with an http or https scheme: \<^verbatim>\<open>protocol\<close> (with the colon),
  \<^verbatim>\<open>hostname\<close>, and \<^verbatim>\<open>port\<close>, which is the empty string (\<^term>\<open>None\<close>) for the scheme's
  default port.\<close>

record url =
  protocol :: string
  hostname :: string
  port :: "nat option"

text \<open>The decimal digits of a number, as a template literal prints it.\<close>

fun digits_of :: "nat \<Rightarrow> string" where
  "digits_of n =
     (if n < 10 then [char_of (48 + n)]
      else digits_of (n div 10) @ [char_of (48 + n mod 10)])"

declare digits_of.simps [simp del]

definition url_host :: "url \<Rightarrow> string" where
  "url_host u = hostname u @ (case port u of None \<Rightarrow> [] | Some p \<Rightarrow> '':'' @ digits_of p)"

definition url_origin_of :: "url \<Rightarrow> string" where
  "url_origin_of u = protocol u @ ''//'' @ url_host u"

text \<open>\<^verbatim>\<open>Number(u.port || (u.protocol === 'https:' ? 443 : 80)) + 1\<close>\<close>

definition next_port :: "url \<Rightarrow> nat" where
  "next_port u =
     (case port u of
        Some p \<Rightarrow> p
      | None \<Rightarrow> if protocol u = ''https:'' then 443 else 80) + 1"

record metadata =
  issuer :: string
  authorization_endpoint :: string
  token_endpoint :: string
  revocation_endpoint :: string
  scopes_supported :: "string list"

record endpoint_overrides =
  authorizationEndpoint :: "string option"
  tokenEndpoint :: "string option"
  revocationEndpoint :: "string option"

text \<open>
  Modelled from the spec: \<^verbatim>\<open>buildAuthorizationServerMetadata\<close> (shared/oauth/discovery.js)
  is not among the source files. The spec has the authorization-server metadata advertise
  the authorize, token and revoke endpoints and the supported scopes; its callers pass a
  base URL, the scopes and the three endpoints, with the comment that the proxy's own
  endpoints are also what the function uses when an endpoint is not given.
\<close>

definition buildAuthorizationServerMetadata ::
  "string \<Rightarrow> string list \<Rightarrow> endpoint_overrides \<Rightarrow> metadata" where
  "buildAuthorizationServerMetadata baseUrl scps overrides =
     \<lparr> issuer = baseUrl,
       authorization_endpoint =
         (case authorizationEndpoint overrides of Some e \<Rightarrow> e | None \<Rightarrow> baseUrl @ ''/authorize''),
       token_endpoint =
         (case tokenEndpoint overrides of Some e \<Rightarrow> e | None \<Rightarrow> baseUrl @ ''/token''),
       revocation_endpoint =
         (case revocationEndpoint overrides of Some e \<Rightarrow> e | None \<Rightarrow> baseUrl @ ''/revoke''),
       scopes_supported = scps \<rparr>"

text \<open>A discovery strategy; a resolver that throws returns \<^term>\<open>Inl\<close>.\<close>

record discoveryStrategy =
  resolveAuthBaseUrl :: "url \<Rightarrow> config \<Rightarrow> string + string"
  resolveAuthorizationServerUrl :: "url \<Rightarrow> config \<Rightarrow> string + string"
  resolveResourceBaseUrl :: "url \<Rightarrow> config \<Rightarrow> string + string"

text \<open>\<^verbatim>\<open>config.OAUTH_SCOPES.split(/\s+/).map((scope) => scope.trim()).filter(Boolean)\<close>:
  splitting at runs of white space and dropping the empty pieces leaves the same pieces as
  splitting at every white-space code unit and dropping the empty pieces.\<close>

definition discovery_scopes :: "config \<Rightarrow> string list" where
  "discovery_scopes cfg =
     filter (\<lambda>p. p \<noteq> []) (map trim (split_where is_js_space (OAUTH_SCOPES cfg)))"

definition authorizationMetadata ::
  "config \<Rightarrow> discoveryStrategy \<Rightarrow> url \<Rightarrow> string + metadata" where
  "authorizationMetadata cfg strat requestUrl =
     (case resolveAuthBaseUrl strat requestUrl cfg of
        Inl msg \<Rightarrow> Inl msg
      | Inr baseUrl \<Rightarrow>
          Inr (buildAuthorizationServerMetadata baseUrl (discovery_scopes cfg)
                 \<lparr> authorizationEndpoint = Some (baseUrl @ ''/authorize''),
                   tokenEndpoint = Some (baseUrl @ ''/token''),
                   revocationEndpoint = Some (baseUrl @ ''/revoke'') \<rparr>))"

definition workerDiscoveryStrategy :: discoveryStrategy where
  "workerDiscoveryStrategy =
     \<lparr> resolveAuthBaseUrl = (\<lambda>requestUrl cfg. Inr (url_origin_of requestUrl)),
       resolveAuthorizationServerUrl =
         (\<lambda>requestUrl cfg. Inr (url_origin_of requestUrl @ ''/.well-known/oauth-authorization-server'')),
       resolveResourceBaseUrl = (\<lambda>requestUrl cfg. Inr (url_origin_of requestUrl @ ''/mcp'')) \<rparr>"

text \<open>The base URL on the next port: \<^verbatim>\<open>`${u.protocol}//${u.hostname}:${authPort}`\<close>\<close>

definition port_base :: "url \<Rightarrow> nat \<Rightarrow> string" where
  "port_base u authPort = protocol u @ ''//'' @ hostname u @ '':'' @ digits_of authPort"

text \<open>The node strategy; \<open>URL_parse\<close> is \<^verbatim>\<open>new URL(s)\<close>, which throws on a string that is
  not a URL.\<close>

definition nodeDiscoveryStrategy :: "(string \<Rightarrow> string + url) \<Rightarrow> discoveryStrategy" where
  "nodeDiscoveryStrategy URL_parse =
     \<lparr> resolveAuthBaseUrl =
         (\<lambda>requestUrl cfg.
            if truthy (AUTH_RESOURCE_URI cfg) then
              (case URL_parse (the (AUTH_RESOURCE_URI cfg)) of
                 Inl msg \<Rightarrow> Inl msg
               | Inr resourceUrl \<Rightarrow> Inr (port_base resourceUrl (next_port resourceUrl)))
            else Inr (port_base requestUrl (PORT cfg + 1))),
       resolveAuthorizationServerUrl =
         (\<lambda>requestUrl cfg.
            if truthy (AUTH_RESOURCE_URI cfg) then
              (case URL_parse (the (AUTH_RESOURCE_URI cfg)) of
                 Inl msg \<Rightarrow> Inl msg
               | Inr resourceUrl \<Rightarrow>
                   Inr (port_base resourceUrl (next_port resourceUrl)
                        @ ''/.well-known/oauth-authorization-server''))
            else Inr (port_base requestUrl (PORT cfg + 1)
                      @ ''/.well-known/oauth-authorization-server'')),
       resolveResourceBaseUrl =
         (\<lambda>requestUrl cfg.
            if truthy (AUTH_RESOURCE_URI cfg) then Inr (the (AUTH_RESOURCE_URI cfg))
            else Inr (protocol requestUrl @ ''//'' @ url_host requestUrl @ ''/mcp'')) \<rparr>"

text \<open>The discovery route of the auth server (\<^verbatim>\<open>buildAuthApp\<close>), for the request URL
  \<^verbatim>\<open>c.req.url\<close>: first the base URL it computes, then the document.\<close>

definition auth_app_base :: "(string \<Rightarrow> string + url) \<Rightarrow> config \<Rightarrow> string \<Rightarrow> string + string" where
  "auth_app_base URL_parse cfg request_url =
     (case (if truthy (AUTH_RESOURCE_URI cfg) then URL_parse (the (AUTH_RESOURCE_URI cfg))
            else URL_parse request_url) of
        Inl msg \<Rightarrow> Inl msg
      | Inr here \<Rightarrow>
          Inr (if truthy (AUTH_RESOURCE_URI cfg) then port_base here (next_port here)
               else protocol here @ ''//'' @ url_host here))"

definition buildAuthApp_metadata ::
  "(string \<Rightarrow> string + url) \<Rightarrow> config \<Rightarrow> string \<Rightarrow> string + metadata" where
  "buildAuthApp_metadata URL_parse cfg request_url =
     (case auth_app_base URL_parse cfg request_url of
        Inl msg \<Rightarrow> Inl msg
      | Inr base \<Rightarrow>
          Inr (buildAuthorizationServerMetadata base
                 (filter (\<lambda>p. p \<noteq> []) (split_on CHR '' '' (OAUTH_SCOPES cfg)))
                 \<lparr> authorizationEndpoint = Some (base @ ''/authorize''),
                   tokenEndpoint = Some (base @ ''/token''),
                   revocationEndpoint = Some (base @ ''/revoke'') \<rparr>))"

section \<open>Example configurations and environments\<close>

text \<open>Concrete inputs on which the theorems below are instantiated.\<close>

definition cfg_strict :: config where
  "cfg_strict =
     \<lparr> NODE_ENV = ''production'', MCP_PROTOCOL_VERSION = ''2025-06-18'',
       AUTH_ENABLED = True, AUTH_RESOURCE_URI = None, AUTH_STRATEGY = ''oauth'',
       AUTH_REQUIRE_RS = True, AUTH_ALLOW_DIRECT_BEARER = False, AUTH_DISCOVERY_URL = None,
       OAUTH_SCOPES = ''openid email'',
       OAUTH_AUTHORIZATION_URL = ''https://accounts.example.com/o/oauth2/v2/auth'',
       OAUTH_TOKEN_URL = ''https://oauth2.example.com/token'', PORT = 3000 \<rparr>"

definition cfg_direct :: config where
  "cfg_direct = cfg_strict\<lparr> AUTH_ALLOW_DIRECT_BEARER := True \<rparr>"

definition demo_provider :: provider_tokens where
  "demo_provider =
     \<lparr> access_token = ''ya29'', refresh_token = None, expires_at = None, scopes = None \<rparr>"

definition demo_store :: "string \<Rightarrow> string + rs_record option" where
  "demo_store t = (if t = ''rs-1'' then Inr (Some \<lparr> provider = Some demo_provider \<rparr>) else Inr None)"

definition failing_store :: "string \<Rightarrow> string + rs_record option" where
  "failing_store t = Inl ''store unavailable''"

definition env_demo :: "(string \<Rightarrow> string + rs_record option) \<Rightarrow> gate_env" where
  "env_demo store =
     \<lparr> validateOrigin = (\<lambda>_ _. None), validateProtocolVersion = (\<lambda>_ _. None),
       url_origin = (\<lambda>_. Inr ''http://localhost:3000''),
       randomUUID = ''uuid-1'',
       getByRsAccess = store,
       challenge_www_authenticate =
         (\<lambda>origin sid. ''Bearer resource_metadata='' @ origin @ ''?sid='' @ sid),
       challenge_error = (- 32000, ''Unauthorized'') \<rparr>"

definition req_with :: "string option \<Rightarrow> string option \<Rightarrow> request" where
  "req_with a sid =
     \<lparr> hdr_authorization = a, hdr_mcp_session_id = sid,
       req_url = ''http://localhost:3000/mcp'', req_headers = [] \<rparr>"

definition ok_response :: response where
  "ok_response = \<lparr> status = 200, headers = [], payload = Opaque ''ok'' \<rparr>"

definition sdk_ok :: sdk_env where
  "sdk_ok =
     \<lparr> server_connect = (\<lambda>_ _. None),
       transport_handleRequest = (\<lambda>_ _ _ b. Inr (ok_response, isInitialize b)),
       route_randomUUID = (\<lambda>_. ''uuid-2'') \<rparr>"

definition sdk_rejecting :: sdk_env where
  "sdk_rejecting = sdk_ok\<lparr> server_connect := (\<lambda>_ _. Some ''Transport already started'') \<rparr>"


definition state_empty :: routes_state where
  "state_empty =
     \<lparr> transports = Map.empty, connectedTransports = {}, init_callback = Map.empty,
       next_transport = 0, events = [] \<rparr>"

definition state_two :: routes_state where
  "state_two =
     \<lparr> transports = [''s1'' \<mapsto> 0, ''s2'' \<mapsto> 1], connectedTransports = {},
       init_callback = [0 \<mapsto> ''s1'', 1 \<mapsto> ''s2''], next_transport = 2, events = [] \<rparr>"

definition mcp_req :: "string option \<Rightarrow> json option \<Rightarrow> mcp_request" where
  "mcp_req sid b = \<lparr> mcp_session_header = sid, mcp_body = b, mcp_authContext = None \<rparr>"

definition tools_list :: json where
  "tools_list =
     JObj [(''jsonrpc'', JStr ''2.0''), (''id'', JNum 1), (''method'', JStr ''tools/list'')]"


definition demo_url :: url where
  "demo_url = \<lparr> protocol = ''http:'', hostname = ''localhost'', port = Some 3000 \<rparr>"

definition demo_URL_parse :: "string \<Rightarrow> string + url" where
  "demo_URL_parse t =
     (if t = ''http://localhost:3000/.well-known/oauth-authorization-server'' then Inr demo_url
      else if t = ''https://mcp.example.com/mcp''
      then Inr \<lparr> protocol = ''https:'', hostname = ''mcp.example.com'', port = None \<rparr>
      else Inl ''Invalid URL'')"

definition cfg_resource :: config where
  "cfg_resource = cfg_strict\<lparr> AUTH_RESOURCE_URI := Some ''https://mcp.example.com/mcp'' \<rparr>"

definition cfg_bad_resource :: config where
  "cfg_bad_resource = cfg_strict\<lparr> AUTH_RESOURCE_URI := Some ''not a url'' \<rparr>"

definition cfg_own_endpoints :: config where
  "cfg_own_endpoints =
     cfg_strict\<lparr> OAUTH_AUTHORIZATION_URL := ''http://localhost:3000/authorize'',
                 OAUTH_TOKEN_URL := ''http://localhost:3000/token'' \<rparr>"

definition demo_document :: "string \<Rightarrow> metadata" where
  "demo_document base =
     \<lparr> issuer = base, authorization_endpoint = base @ ''/authorize'',
       token_endpoint = base @ ''/token'', revocation_endpoint = base @ ''/revoke'',
       scopes_supported = [''openid'', ''email''] \<rparr>"

section \<open>Properties of the string functions\<close>

lemma split_where_nonempty: "split_where P s \<noteq> []"
  by (induction s) (auto split: list.splits)

lemma split_where_pieces: "p \<in> set (split_where P s) \<Longrightarrow> x \<in> set p \<Longrightarrow> \<not> P x"
proof (induction s arbitrary: p)
  case Nil
  then show ?case by simp
next
  case (Cons y ys)
  obtain q qs where q: "split_where P ys = q # qs"
    using split_where_nonempty[of P ys] by (cases "split_where P ys") auto
  show ?case
  proof (cases "P y")
    case True
    with Cons.prems have "p = [] \<or> p \<in> set (split_where P ys)" by simp
    with Cons.prems(2) Cons.IH show ?thesis by auto
  next
    case False
    with Cons.prems(1) q have "p = y # q \<or> p \<in> set qs" by auto
    then show ?thesis
    proof
      assume "p = y # q"
      with Cons.prems(2) have "x = y \<or> x \<in> set q" by auto
      then show ?thesis using False Cons.IH[of q] q by auto
    next
      assume "p \<in> set qs"
      then show ?thesis using Cons.IH[of p] Cons.prems(2) q by simp
    qed
  qed
qed

lemma split_on_no_separator: "p \<in> set (split_on c s) \<Longrightarrow> c \<notin> set p"
  unfolding split_on_def using split_where_pieces[of p "\<lambda>x. x = c" s c] by blast

lemma set_trim: "set (trim s) \<subseteq> set s"
proof
  fix x assume "x \<in> set (trim s)"
  then have "x \<in> set (dropWhile is_js_space (rev (dropWhile is_js_space s)))"
    by (simp add: trim_def)
  then have "x \<in> set (rev (dropWhile is_js_space s))"
    by (rule set_dropWhileD)
  then have "x \<in> set (dropWhile is_js_space s)" by simp
  then show "x \<in> set s" by (rule set_dropWhileD)
qed

lemma trim_Nil: "trim [] = []"
  by (simp add: trim_def)

text \<open>The extracted bearer token contains no space: it is cut out between two spaces of the
  header and then trimmed.\<close>

lemma bearer_of_no_space: "CHR '' '' \<notin> set (bearer_of auth)"
proof (cases "auth_rsToken auth")
  case None
  then show ?thesis by (simp add: bearer_of_def trim_Nil)
next
  case (Some t)
  then have "t \<in> set (take 2 (split_on CHR '' '' auth))"
    by (auto simp: auth_rsToken_def split_limit2_def split: list.splits)
  then have "t \<in> set (split_on CHR '' '' auth)"
    by (rule in_set_takeD)
  then have "CHR '' '' \<notin> set t"
    by (rule split_on_no_separator)
  with set_trim[of t] have "CHR '' '' \<notin> set (trim t)" by auto
  with Some show ?thesis by (auto simp: bearer_of_def trim_Nil)
qed

lemma bearer_header_neq_token: "''Bearer '' @ tok \<noteq> bearer_of auth"
proof
  assume eq: "''Bearer '' @ tok = bearer_of auth"
  have "CHR '' '' \<in> set (''Bearer '' @ tok)" by simp
  then have "CHR '' '' \<in> set (bearer_of auth)" by (simp only: eq)
  then show False using bearer_of_no_space[of auth] by simp
qed

lemma bearer_of_Nil: "bearer_of [] = []"
  by (simp add: bearer_of_def auth_scheme_def split_limit2_def split_on_def)

section \<open>The security middleware: store errors, resolved headers, challenges\<close>

text \<open>
  C1 (as amended). For a request that passed the origin and protocol-version checks, with
  auth enabled and a bearer token extracted from its Authorization header: if the token store
  lookup throws, the error is logged (\<open>Token lookup failed\<close>, with the error's message) and
  the request goes on to the next handler with no auth context and no response of the
  middleware's own, whatever \<open>AUTH_REQUIRE_RS\<close> and \<open>AUTH_ALLOW_DIRECT_BEARER\<close> are. That is
  the outcome of the not-found branch when the configuration does not both require
  resource-server tokens and disallow direct bearer tokens.
\<close>

theorem C1_store_error_passes_through:
  assumes "validateOrigin env (req_headers req) (NODE_ENV cfg = ''development'') = None"
    and "validateProtocolVersion env (req_headers req) (MCP_PROTOCOL_VERSION cfg) = None"
    and "AUTH_ENABLED cfg"
    and "hdr_authorization req = Some auth"
    and "bearer_of auth \<noteq> []"
    and "getByRsAccess env (bearer_of auth) = Inl msg"
  shows "createMcpSecurityMiddleware cfg env req
           = (Next None, [Log Error ''Token lookup failed'' msg])
       \<and> (\<not> (AUTH_REQUIRE_RS cfg \<and> \<not> AUTH_ALLOW_DIRECT_BEARER cfg) \<longrightarrow>
            fst (createMcpSecurityMiddleware cfg (env\<lparr>getByRsAccess := (\<lambda>_. Inr None)\<rparr>) req)
              = Next None)"
proof -
  have ne: "auth \<noteq> []"
    using assms(5) bearer_of_Nil by auto
  show ?thesis
    using assms ne
    by (simp add: createMcpSecurityMiddleware_def lookup_bearer_def token_lookup_failed_def
        truthy_def Let_def)
qed

text \<open>The theorem at a request with a bearer token, a store that is down, and a
  configuration that allows direct bearer tokens.\<close>

theorem C1_store_error_witness:
  "createMcpSecurityMiddleware cfg_direct (env_demo failing_store)
       (req_with (Some ''Bearer rs-2'') (Some ''s1''))
     = (Next None, [Log Error ''Token lookup failed'' ''store unavailable''])
   \<and> fst (createMcpSecurityMiddleware cfg_direct
            ((env_demo failing_store)\<lparr>getByRsAccess := (\<lambda>_. Inr None)\<rparr>)
            (req_with (Some ''Bearer rs-2'') (Some ''s1'')))
     = Next None"
proof -
  let ?env = "env_demo failing_store" and ?req = "req_with (Some ''Bearer rs-2'') (Some ''s1'')"
  have b: "bearer_of ''Bearer rs-2'' = ''rs-2''" by code_simp
  have h1: "validateOrigin ?env (req_headers ?req) (NODE_ENV cfg_direct = ''development'') = None"
    and h2: "validateProtocolVersion ?env (req_headers ?req) (MCP_PROTOCOL_VERSION cfg_direct) = None"
    and h3: "AUTH_ENABLED cfg_direct"
    and h4: "hdr_authorization ?req = Some ''Bearer rs-2''"
    and h5: "bearer_of ''Bearer rs-2'' \<noteq> []"
    and h6: "getByRsAccess ?env (bearer_of ''Bearer rs-2'') = Inl ''store unavailable''"
    and h7: "\<not> (AUTH_REQUIRE_RS cfg_direct \<and> \<not> AUTH_ALLOW_DIRECT_BEARER cfg_direct)"
    by (simp_all add: b env_demo_def failing_store_def req_with_def cfg_direct_def cfg_strict_def)
  from C1_store_error_passes_through[OF h1 h2 h3 h4 h5 h6] h7 show ?thesis
    by blast
qed

text \<open>
  The claim as stated fails: with resource-server tokens required and direct bearer tokens
  disallowed, the same request is answered with the 401 challenge when the store reports
  "not found", and passes to the next handler when the store throws.
\<close>

theorem C1_counterexample:
  "AUTH_ENABLED cfg_strict \<and> AUTH_REQUIRE_RS cfg_strict \<and> \<not> AUTH_ALLOW_DIRECT_BEARER cfg_strict
   \<and> getByRsAccess (env_demo failing_store) ''rs-2'' = Inl ''store unavailable''
   \<and> getByRsAccess (env_demo demo_store) ''rs-2'' = Inr None
   \<and> fst (createMcpSecurityMiddleware cfg_strict (env_demo failing_store)
            (req_with (Some ''Bearer rs-2'') (Some ''s1'')))
       = Next None
   \<and> fst (createMcpSecurityMiddleware cfg_strict (env_demo demo_store)
            (req_with (Some ''Bearer rs-2'') (Some ''s1'')))
       = Respond \<lparr> status = 401,
                   headers = [(''Mcp-Session-Id'', ''s1''),
                              (''WWW-Authenticate'',
                               ''Bearer resource_metadata=http://localhost:3000?sid=s1'')],
                   payload = JsonRpcError (- 32000) ''Unauthorized'' \<rparr>"
  by code_simp

lemma attached_context:
  assumes "createMcpSecurityMiddleware cfg env req = (Next (Some ctx), lg)"
  shows "\<exists>auth r p. hdr_authorization req = Some auth
           \<and> getByRsAccess env (bearer_of auth) = Inr (Some r) \<and> provider r = Some p
           \<and> resolvedHeaders_authorization ctx = ''Bearer '' @ access_token p
           \<and> rsToken ctx = bearer_of auth
           \<and> resolvedHeaders_authorization ctx \<noteq> rsToken ctx"
proof -
  from assms obtain auth where a: "hdr_authorization req = Some auth"
    and l: "lookup_bearer cfg env req auth (bearer_of auth) = (Next (Some ctx), lg)"
    by (auto simp: createMcpSecurityMiddleware_def security_check_failed_def
        challenge_no_auth_def truthy_def Let_def split: option.splits if_splits sum.splits)
  from l obtain r p where "getByRsAccess env (bearer_of auth) = Inr (Some r)"
    and "provider r = Some p"
    and "resolvedHeaders_authorization ctx = ''Bearer '' @ access_token p"
    and "rsToken ctx = bearer_of auth"
    by (auto simp: lookup_bearer_def token_lookup_failed_def Let_def
        split: option.splits if_splits sum.splits)
  with a bearer_header_neq_token[of "access_token p" auth] show ?thesis by auto
qed

lemma resolved_token_attached:
  assumes "validateOrigin env (req_headers req) (NODE_ENV cfg = ''development'') = None"
    and "validateProtocolVersion env (req_headers req) (MCP_PROTOCOL_VERSION cfg) = None"
    and "AUTH_ENABLED cfg"
    and "hdr_authorization req = Some auth"
    and "bearer_of auth \<noteq> []"
    and "getByRsAccess env (bearer_of auth) = Inr (Some r)"
    and "provider r = Some p"
  shows "\<exists>c. createMcpSecurityMiddleware cfg env req = (Next (Some c), [])
           \<and> resolvedHeaders_authorization c = ''Bearer '' @ access_token p
           \<and> rsToken c = bearer_of auth
           \<and> resolvedHeaders_authorization c \<noteq> rsToken c"
proof -
  have ne: "auth \<noteq> []"
    using assms(5) bearer_of_Nil by auto
  show ?thesis
    using assms ne bearer_header_neq_token[of "access_token p" auth]
    by (simp add: createMcpSecurityMiddleware_def lookup_bearer_def truthy_def Let_def)
qed

text \<open>
  C2. Whenever the middleware attaches an auth context to a request, the request has an
  Authorization header whose bearer token the store resolves to a provider credential, the
  context's \<open>resolvedHeaders.authorization\<close> is \<open>Bearer\<close>, a space, and that credential's
  access token, its \<open>rsToken\<close> is the token of the inbound header, and the resolved header
  differs from that token. And for every request that passed the checks, with auth enabled,
  whose bearer token the store resolves to a provider credential, such a context is attached.
\<close>

theorem C2_resolved_header:
  "(createMcpSecurityMiddleware cfg env req = (Next (Some ctx), lg) \<longrightarrow>
      (\<exists>auth' r' p'. hdr_authorization req = Some auth'
           \<and> getByRsAccess env (bearer_of auth') = Inr (Some r') \<and> provider r' = Some p'
           \<and> resolvedHeaders_authorization ctx = ''Bearer '' @ access_token p'
           \<and> rsToken ctx = bearer_of auth'
           \<and> resolvedHeaders_authorization ctx \<noteq> rsToken ctx))
 \<and> (validateOrigin env (req_headers req) (NODE_ENV cfg = ''development'') = None
      \<and> validateProtocolVersion env (req_headers req) (MCP_PROTOCOL_VERSION cfg) = None
      \<and> AUTH_ENABLED cfg
      \<and> hdr_authorization req = Some auth
      \<and> bearer_of auth \<noteq> []
      \<and> getByRsAccess env (bearer_of auth) = Inr (Some r)
      \<and> provider r = Some p \<longrightarrow>
      (\<exists>c. createMcpSecurityMiddleware cfg env req = (Next (Some c), [])
           \<and> resolvedHeaders_authorization c = ''Bearer '' @ access_token p
           \<and> rsToken c = bearer_of auth
           \<and> resolvedHeaders_authorization c \<noteq> rsToken c))"
  using attached_context[of cfg env req ctx lg] resolved_token_attached[of env req cfg auth r p]
  by blast

theorem C2_resolved_header_witness:
  "createMcpSecurityMiddleware cfg_strict (env_demo demo_store)
       (req_with (Some ''Bearer rs-1'') None)
     = (Next (Some \<lparr> strategy = ''oauth'', authHeaders_authorization = ''Bearer rs-1'',
                      resolvedHeaders_authorization = ''Bearer ya29'', providerToken = ''ya29'',
                      ctx_provider = demo_provider, rsToken = ''rs-1'' \<rparr>), [])
   \<and> getByRsAccess (env_demo demo_store) ''rs-1'' = Inr (Some \<lparr> provider = Some demo_provider \<rparr>)
   \<and> access_token demo_provider = ''ya29''
   \<and> (\<exists>c. createMcpSecurityMiddleware cfg_strict (env_demo demo_store)
              (req_with (Some ''Bearer rs-1'') None) = (Next (Some c), [])
          \<and> resolvedHeaders_authorization c = ''Bearer '' @ access_token demo_provider
          \<and> rsToken c = ''rs-1''
          \<and> resolvedHeaders_authorization c \<noteq> rsToken c)"
proof -
  let ?env = "env_demo demo_store" and ?req = "req_with (Some ''Bearer rs-1'') None"
  let ?ctx = "\<lparr> strategy = ''oauth'', authHeaders_authorization = ''Bearer rs-1'',
                resolvedHeaders_authorization = ''Bearer ya29'', providerToken = ''ya29'',
                ctx_provider = demo_provider, rsToken = ''rs-1'' \<rparr>"
  have b: "bearer_of ''Bearer rs-1'' = ''rs-1''" by code_simp
  have e: "createMcpSecurityMiddleware cfg_strict ?env ?req = (Next (Some ?ctx), [])"
    by code_simp
  have h: "validateOrigin ?env (req_headers ?req) (NODE_ENV cfg_strict = ''development'') = None
      \<and> validateProtocolVersion ?env (req_headers ?req) (MCP_PROTOCOL_VERSION cfg_strict) = None
      \<and> AUTH_ENABLED cfg_strict
      \<and> hdr_authorization ?req = Some ''Bearer rs-1''
      \<and> bearer_of ''Bearer rs-1'' \<noteq> []
      \<and> getByRsAccess ?env (bearer_of ''Bearer rs-1'')
           = Inr (Some \<lparr> provider = Some demo_provider \<rparr>)
      \<and> provider \<lparr> provider = Some demo_provider \<rparr> = Some demo_provider"
    by (simp add: b env_demo_def demo_store_def req_with_def cfg_strict_def)
  have s: "getByRsAccess ?env ''rs-1'' = Inr (Some \<lparr> provider = Some demo_provider \<rparr>)"
    and t: "access_token demo_provider = ''ya29''"
    by (simp_all add: env_demo_def demo_store_def demo_provider_def)
  from C2_resolved_header[of cfg_strict ?env ?req ?ctx "[]" "''Bearer rs-1''"
         "\<lparr> provider = Some demo_provider \<rparr>" demo_provider] e h
  have "\<exists>c. createMcpSecurityMiddleware cfg_strict ?env ?req = (Next (Some c), [])
          \<and> resolvedHeaders_authorization c = ''Bearer '' @ access_token demo_provider
          \<and> rsToken c = bearer_of ''Bearer rs-1''
          \<and> resolvedHeaders_authorization c \<noteq> rsToken c"
    by blast
  with e s t show ?thesis by (simp only: b)
qed

text \<open>
  C3 (as amended). For a request that passed the checks, with auth enabled, whose
  Authorization header is absent or empty, and for which the origin to advertise resolves:
  the response is the 401 challenge, and its \<open>Mcp-Session-Id\<close> header is the session id of
  the request when that header is present and not empty, and the freshly generated id
  otherwise.
\<close>

theorem C3_challenge_without_authorization:
  assumes "validateOrigin env (req_headers req) (NODE_ENV cfg = ''development'') = None"
    and "validateProtocolVersion env (req_headers req) (MCP_PROTOCOL_VERSION cfg) = None"
    and "AUTH_ENABLED cfg"
    and "\<not> truthy (hdr_authorization req)"
    and "challenge_origin cfg env req = Inr origin"
  shows "\<exists>r lg. createMcpSecurityMiddleware cfg env req = (Respond r, lg)
           \<and> status r = 401
           \<and> map_of (headers r) ''Mcp-Session-Id'' =
               Some (if truthy (hdr_mcp_session_id req) then the (hdr_mcp_session_id req)
                     else randomUUID env)"
  using assms
  by (simp add: createMcpSecurityMiddleware_def challenge_no_auth_def challenge_response_def
      buildUnauthorizedChallenge_def Let_def)

theorem C3_challenge_witness:
  "(\<exists>r lg. createMcpSecurityMiddleware cfg_strict (env_demo demo_store) (req_with None (Some ''s1''))
              = (Respond r, lg)
           \<and> status r = 401 \<and> map_of (headers r) ''Mcp-Session-Id'' = Some ''s1'')
   \<and> (\<exists>r lg. createMcpSecurityMiddleware cfg_strict (env_demo demo_store) (req_with None None)
              = (Respond r, lg)
           \<and> status r = 401 \<and> map_of (headers r) ''Mcp-Session-Id'' = Some ''uuid-1'')"
proof -
  let ?env = "env_demo demo_store"
  have h1: "validateOrigin ?env (req_headers (req_with None sid)) (NODE_ENV cfg_strict = ''development'') = None"
    and h2: "validateProtocolVersion ?env (req_headers (req_with None sid)) (MCP_PROTOCOL_VERSION cfg_strict) = None"
    and h3: "AUTH_ENABLED cfg_strict"
    and h4: "\<not> truthy (hdr_authorization (req_with None sid))"
    and h5: "challenge_origin cfg_strict ?env (req_with None sid) = Inr ''http://localhost:3000''"
    for sid
    by (simp_all add: env_demo_def req_with_def cfg_strict_def truthy_def challenge_origin_def)
  have a: "truthy (hdr_mcp_session_id (req_with None (Some ''s1'')))"
    and a': "the (hdr_mcp_session_id (req_with None (Some ''s1''))) = ''s1''"
    and b: "\<not> truthy (hdr_mcp_session_id (req_with None None))"
    and b': "randomUUID ?env = ''uuid-1''"
    by (simp_all add: req_with_def truthy_def env_demo_def)
  from C3_challenge_without_authorization[OF h1 h2 h3 h4 h5, of "Some ''s1''"]
       C3_challenge_without_authorization[OF h1 h2 h3 h4 h5, of None]
  show ?thesis
    by (simp only: a a' b b' if_True if_False)
qed

text \<open>
  The claim as stated fails for a request that carries no bearer credential but some other
  Authorization header: with auth enabled, a Basic credential extracts no bearer token, and
  the request passes to the next handler without a challenge.
\<close>

theorem C3_counterexample:
  "AUTH_ENABLED cfg_strict \<and> bearer_of ''Basic dXNlcjpwdw=='' = []
   \<and> createMcpSecurityMiddleware cfg_strict (env_demo demo_store)
        (req_with (Some ''Basic dXNlcjpwdw=='') (Some ''s1'')) = (Next None, [])"
  by code_simp

text \<open>
  C9. For a request that passed the checks, with auth enabled, whose Authorization header is
  present (not empty) and either has a scheme other than \<open>bearer\<close> (compared in lower case) or
  has no token, an empty token or a white-space token after the scheme: the middleware
  answers nothing and attaches nothing, and the request goes on to the next handler, whatever
  \<open>AUTH_REQUIRE_RS\<close> and \<open>AUTH_ALLOW_DIRECT_BEARER\<close> are.
\<close>

theorem C9_non_bearer_passes_through:
  assumes "validateOrigin env (req_headers req) (NODE_ENV cfg = ''development'') = None"
    and "validateProtocolVersion env (req_headers req) (MCP_PROTOCOL_VERSION cfg) = None"
    and "AUTH_ENABLED cfg"
    and "hdr_authorization req = Some auth"
    and "auth \<noteq> []"
    and "toLowerCase (auth_scheme auth) \<noteq> ''bearer''
         \<or> (case auth_rsToken auth of None \<Rightarrow> True | Some t \<Rightarrow> trim t = [])"
  shows "createMcpSecurityMiddleware cfg env req = (Next None, [])"
proof -
  have "bearer_of auth = []"
    using assms(6) by (auto simp: bearer_of_def trim_Nil split: option.splits)
  then show ?thesis
    using assms
    by (simp add: createMcpSecurityMiddleware_def truthy_def Let_def)
qed

theorem C9_non_bearer_witness:
  "AUTH_REQUIRE_RS cfg_strict \<and> \<not> AUTH_ALLOW_DIRECT_BEARER cfg_strict
   \<and> createMcpSecurityMiddleware cfg_strict (env_demo demo_store)
        (req_with (Some ''Basic dXNlcjpwdw=='') None) = (Next None, [])
   \<and> createMcpSecurityMiddleware cfg_strict (env_demo demo_store)
        (req_with (Some ''Bearer  '') None) = (Next None, [])"
proof -
  let ?env = "env_demo demo_store"
  have h1: "validateOrigin ?env (req_headers (req_with a None)) (NODE_ENV cfg_strict = ''development'') = None"
    and h2: "validateProtocolVersion ?env (req_headers (req_with a None)) (MCP_PROTOCOL_VERSION cfg_strict) = None"
    and h3: "AUTH_ENABLED cfg_strict"
    and h4: "hdr_authorization (req_with (Some x) None) = Some x"
    for a x
    by (simp_all add: env_demo_def req_with_def cfg_strict_def)
  have n1: "''Basic dXNlcjpwdw=='' \<noteq> []" and n2: "''Bearer  '' \<noteq> []" by simp_all
  have s1: "toLowerCase (auth_scheme ''Basic dXNlcjpwdw=='') \<noteq> ''bearer''
         \<or> (case auth_rsToken ''Basic dXNlcjpwdw=='' of None \<Rightarrow> True | Some t \<Rightarrow> trim t = [])"
    by code_simp
  have s2: "toLowerCase (auth_scheme ''Bearer  '') \<noteq> ''bearer''
         \<or> (case auth_rsToken ''Bearer  '' of None \<Rightarrow> True | Some t \<Rightarrow> trim t = [])"
    by code_simp
  have c: "AUTH_REQUIRE_RS cfg_strict \<and> \<not> AUTH_ALLOW_DIRECT_BEARER cfg_strict"
    by (simp add: cfg_strict_def)
  from C9_non_bearer_passes_through[OF h1 h2 h3 h4 n1 s1]
       C9_non_bearer_passes_through[OF h1 h2 h3 h4 n2 s2] c
  show ?thesis by blast
qed

section \<open>The MCP routes: session checks, the connect guard, the session lifecycle\<close>

text \<open>
  C4 (as amended). For every GET or DELETE request that carries no session id header (or an
  empty one), the response is the 405 "method not allowed, no session" error with JSON-RPC
  code -32000; for every GET or DELETE request whose session id does not resolve to a
  registered transport, the response is the 404 "not found"; in both cases nothing else
  happens.
\<close>

theorem C4_get_delete_session_checks:
  assumes "m = GET \<or> m = DELETE"
  shows "(\<not> truthy (mcp_session_header req) \<longrightarrow>
            buildMcpRoutes sdk m req s = (Reply no_session_response, s))
       \<and> (truthy (mcp_session_header req)
            \<and> transports s (the (mcp_session_header req)) = None \<longrightarrow>
            buildMcpRoutes sdk m req s = (Reply invalid_session_response, s))
       \<and> status no_session_response = 405
       \<and> payload no_session_response = JsonRpcError (- 32000) ''Method not allowed - no session''
       \<and> status invalid_session_response = 404"
  using assms
  by (auto simp: mcp_get_def mcp_delete_def no_session_response_def invalid_session_response_def)

theorem C4_get_delete_witness:
  "buildMcpRoutes sdk_ok GET (mcp_req None None) state_two = (Reply no_session_response, state_two)
   \<and> buildMcpRoutes sdk_ok DELETE (mcp_req (Some ''nope'') None) state_two
       = (Reply invalid_session_response, state_two)"
proof -
  have g: "GET = GET \<or> GET = DELETE" and d: "DELETE = GET \<or> DELETE = DELETE" by simp_all
  have h1: "\<not> truthy (mcp_session_header (mcp_req None None))"
    and h2: "truthy (mcp_session_header (mcp_req (Some ''nope'') None))
             \<and> transports state_two (the (mcp_session_header (mcp_req (Some ''nope'') None))) = None"
    by (simp_all add: mcp_req_def truthy_def state_two_def)
  from C4_get_delete_session_checks[OF g, of "mcp_req None None" sdk_ok state_two]
       C4_get_delete_session_checks[OF d, of "mcp_req (Some ''nope'') None" sdk_ok state_two]
       h1 h2
  show ?thesis by blast
qed

text \<open>
  The claim as stated fails for POST: a POST request that is not an initialize request and
  carries no session id header is given a newly constructed transport, which is connected and
  handles the request, and the transport's response is returned; likewise for a POST whose
  session id is not registered.
\<close>

theorem C4_counterexample:
  "mcp_session_header (mcp_req None (Some tools_list)) = None
   \<and> \<not> isInitialize (mcp_body (mcp_req None (Some tools_list)))
   \<and> fst (buildMcpRoutes sdk_ok POST (mcp_req None (Some tools_list)) state_empty)
       = TransportReply ok_response
   \<and> events (snd (buildMcpRoutes sdk_ok POST (mcp_req None (Some tools_list)) state_empty))
       = [Logged Info ''Processing MCP request'' [], ContextCreate (JNum 1) None None,
          ConnectCall 0, HandleRequest 0 POST]
   \<and> transports state_two ''nope'' = None
   \<and> fst (buildMcpRoutes sdk_ok POST (mcp_req (Some ''nope'') (Some tools_list)) state_two)
       = TransportReply ok_response"
  by (simp add: mcp_post_def mcp_req_def tools_list_def state_empty_def state_two_def sdk_ok_def
      isInitialize_def body_id_def truthy_def ensureConnected_def record_event_def Let_def)

text \<open>
  C7. When \<open>ensureConnected\<close> is called on a transport that is not yet connected and returns
  (the connect does not reject), a second call with the same transport is a no-op: it returns
  without changing anything and without invoking \<open>server.connect\<close>, whatever the server would
  do; over the two calls \<open>server.connect\<close> is invoked exactly once with that transport.
\<close>

theorem C7_ensureConnected_idempotent:
  assumes "t \<notin> connectedTransports s"
    and "ensureConnected sdk t s = (None, s1)"
  shows "ensureConnected sdk' t s1 = (None, s1)
       \<and> connect_invocations t s1 = connect_invocations t s + 1
       \<and> connect_invocations t (snd (ensureConnected sdk' t s1)) = connect_invocations t s + 1"
  using assms
  by (auto simp: ensureConnected_def record_event_def connect_invocations_def split: option.splits)

theorem C7_ensureConnected_witness:
  "0 \<notin> connectedTransports state_two
   \<and> connect_invocations 0 state_two = 0
   \<and> fst (ensureConnected sdk_ok 0 state_two) = None
   \<and> ensureConnected sdk_rejecting 0 (snd (ensureConnected sdk_ok 0 state_two))
       = (None, snd (ensureConnected sdk_ok 0 state_two))
   \<and> connect_invocations 0
        (snd (ensureConnected sdk_rejecting 0 (snd (ensureConnected sdk_ok 0 state_two)))) = 1"
proof -
  have h1: "0 \<notin> connectedTransports state_two"
    by (simp add: state_two_def)
  have f: "fst (ensureConnected sdk_ok 0 state_two) = None"
    by (simp add: ensureConnected_def sdk_ok_def state_two_def)
  then have h2: "ensureConnected sdk_ok 0 state_two = (None, snd (ensureConnected sdk_ok 0 state_two))"
    by (metis prod.collapse)
  have z: "connect_invocations 0 state_two = 0"
    by (simp add: connect_invocations_def state_two_def)
  from C7_ensureConnected_idempotent[OF h1 h2, of sdk_rejecting] h1 f z
  show ?thesis by simp
qed








section \<open>Token endpoint input: grant dispatch and unparseable bodies\<close>

text \<open>
  C5. For every parsed token-endpoint body, \<open>buildTokenInput\<close> returns: the error
  \<open>missing_refresh_token\<close> when \<open>grant_type\<close> is \<open>refresh_token\<close> and \<open>refresh_token\<close> is
  absent or empty; the error \<open>missing_code_or_verifier\<close> when \<open>grant_type\<close> is
  \<open>authorization_code\<close> and \<open>code\<close> or \<open>code_verifier\<close> is absent or empty; the error
  \<open>unsupported_grant_type\<close> for any other \<open>grant_type\<close>, an absent one included; and in the
  two remaining cases the grant tagged with its kind and carrying the fields of the body.
\<close>

theorem C5_buildTokenInput_cases:
  "(form_get form ''grant_type'' = Some ''refresh_token''
        \<and> \<not> truthy (form_get form ''refresh_token'')
      \<longrightarrow> buildTokenInput form = ErrorResult ''missing_refresh_token'')
 \<and> (form_get form ''grant_type'' = Some ''authorization_code''
        \<and> (\<not> truthy (form_get form ''code'') \<or> \<not> truthy (form_get form ''code_verifier''))
      \<longrightarrow> buildTokenInput form = ErrorResult ''missing_code_or_verifier'')
 \<and> (form_get form ''grant_type'' \<noteq> Some ''refresh_token''
        \<and> form_get form ''grant_type'' \<noteq> Some ''authorization_code''
      \<longrightarrow> buildTokenInput form = ErrorResult ''unsupported_grant_type'')
 \<and> (form_get form ''grant_type'' = Some ''refresh_token''
        \<and> form_get form ''refresh_token'' = Some rt \<and> rt \<noteq> []
      \<longrightarrow> buildTokenInput form = Grant (RefreshTokenGrant rt))
 \<and> (form_get form ''grant_type'' = Some ''authorization_code''
        \<and> form_get form ''code'' = Some c \<and> c \<noteq> []
        \<and> form_get form ''code_verifier'' = Some v \<and> v \<noteq> []
      \<longrightarrow> buildTokenInput form = Grant (AuthorizationCodeGrant c v))"
  by (auto simp: buildTokenInput_def truthy_def Let_def)

theorem C5_buildTokenInput_witness:
  "buildTokenInput [(''grant_type'', ''refresh_token''), (''refresh_token'', [])]
     = ErrorResult ''missing_refresh_token''
   \<and> buildTokenInput [(''grant_type'', ''authorization_code''), (''code'', ''abc'')]
     = ErrorResult ''missing_code_or_verifier''
   \<and> buildTokenInput [(''grant_type'', ''password''), (''refresh_token'', ''r1'')]
     = ErrorResult ''unsupported_grant_type''
   \<and> buildTokenInput [(''grant_type'', ''refresh_token''), (''refresh_token'', ''r1'')]
     = Grant (RefreshTokenGrant ''r1'')
   \<and> buildTokenInput [(''grant_type'', ''authorization_code''), (''code'', ''abc''),
                       (''code_verifier'', ''xyz'')]
     = Grant (AuthorizationCodeGrant ''abc'' ''xyz'')"
proof -
  let ?f1 = "[(''grant_type'', ''refresh_token''), (''refresh_token'', [])]"
  let ?f2 = "[(''grant_type'', ''authorization_code''), (''code'', ''abc'')]"
  let ?f3 = "[(''grant_type'', ''password''), (''refresh_token'', ''r1'')]"
  let ?f4 = "[(''grant_type'', ''refresh_token''), (''refresh_token'', ''r1'')]"
  let ?f5 = "[(''grant_type'', ''authorization_code''), (''code'', ''abc''),
              (''code_verifier'', ''xyz'')]"
  have a1: "form_get ?f1 ''grant_type'' = Some ''refresh_token''
            \<and> \<not> truthy (form_get ?f1 ''refresh_token'')"
    by (simp add: form_get_def truthy_def)
  have a2: "form_get ?f2 ''grant_type'' = Some ''authorization_code''
            \<and> (\<not> truthy (form_get ?f2 ''code'') \<or> \<not> truthy (form_get ?f2 ''code_verifier''))"
    by (simp add: form_get_def truthy_def)
  have a3: "form_get ?f3 ''grant_type'' \<noteq> Some ''refresh_token''
            \<and> form_get ?f3 ''grant_type'' \<noteq> Some ''authorization_code''"
    by (simp add: form_get_def)
  have a4: "form_get ?f4 ''grant_type'' = Some ''refresh_token''
            \<and> form_get ?f4 ''refresh_token'' = Some ''r1'' \<and> ''r1'' \<noteq> []"
    by (simp add: form_get_def)
  have a5: "form_get ?f5 ''grant_type'' = Some ''authorization_code''
            \<and> form_get ?f5 ''code'' = Some ''abc'' \<and> ''abc'' \<noteq> []
            \<and> form_get ?f5 ''code_verifier'' = Some ''xyz'' \<and> ''xyz'' \<noteq> []"
    by (simp add: form_get_def)
  from C5_buildTokenInput_cases[of ?f1] a1
  have r1: "buildTokenInput ?f1 = ErrorResult ''missing_refresh_token''" by blast
  from C5_buildTokenInput_cases[of ?f2] a2
  have r2: "buildTokenInput ?f2 = ErrorResult ''missing_code_or_verifier''" by blast
  from C5_buildTokenInput_cases[of ?f3] a3
  have r3: "buildTokenInput ?f3 = ErrorResult ''unsupported_grant_type''" by blast
  from C5_buildTokenInput_cases[of ?f4 "''r1''"] a4
  have r4: "buildTokenInput ?f4 = Grant (RefreshTokenGrant ''r1'')" by blast
  from C5_buildTokenInput_cases[of ?f5 _ "''abc''" "''xyz''"] a5
  have r5: "buildTokenInput ?f5 = Grant (AuthorizationCodeGrant ''abc'' ''xyz'')" by blast
  from r1 r2 r3 r4 r5 show ?thesis by blast
qed



section \<open>Discovery metadata: the advertised endpoints\<close>

text \<open>
  C6 (as amended). Every authorization-server metadata document, whether produced by the
  discovery handlers (for any strategy) or by the discovery route of the auth server, has as
  its authorization, token and revocation endpoints the base URL resolved for the proxy
  followed by \<open>/authorize\<close>, \<open>/token\<close> and \<open>/revoke\<close>. That base is: with the worker
  strategy, the origin of the request URL; with the node strategy, the scheme and host name
  of the request URL on the port \<open>PORT + 1\<close>, or, when \<open>AUTH_RESOURCE_URI\<close> is set, the
  scheme and host name of that URI on its port (443 or 80 when it has none) plus one; for the
  auth server's route, the scheme and host of the request URL, or the same base derived from
  \<open>AUTH_RESOURCE_URI\<close>. No document is produced only when the URL to derive the base from
  does not parse. The provider's own authorize and token URLs (\<open>OAUTH_AUTHORIZATION_URL\<close>,
  \<open>OAUTH_TOKEN_URL\<close>) are never read: changing them changes no document, and an advertised
  endpoint equals one of them only when the configuration gives that URL the value of the
  proxy's own endpoint.
\<close>

theorem C6_metadata_advertises_proxy_endpoints:
  "(authorizationMetadata cfg strat requestUrl = Inr md \<longrightarrow>
      (\<exists>base. resolveAuthBaseUrl strat requestUrl cfg = Inr base
         \<and> authorization_endpoint md = base @ ''/authorize''
         \<and> token_endpoint md = base @ ''/token''
         \<and> revocation_endpoint md = base @ ''/revoke''
         \<and> (authorization_endpoint md = OAUTH_AUTHORIZATION_URL cfg
               \<longleftrightarrow> OAUTH_AUTHORIZATION_URL cfg = base @ ''/authorize'')
         \<and> (token_endpoint md = OAUTH_TOKEN_URL cfg
               \<longleftrightarrow> OAUTH_TOKEN_URL cfg = base @ ''/token'')))
 \<and> (\<exists>doc base. authorizationMetadata cfg workerDiscoveryStrategy requestUrl = Inr doc
         \<and> base = protocol requestUrl @ ''//'' @ hostname requestUrl
                    @ (case port requestUrl of None \<Rightarrow> [] | Some p \<Rightarrow> '':'' @ digits_of p)
         \<and> authorization_endpoint doc = base @ ''/authorize''
         \<and> token_endpoint doc = base @ ''/token''
         \<and> revocation_endpoint doc = base @ ''/revoke'')
 \<and> (\<not> truthy (AUTH_RESOURCE_URI cfg) \<longrightarrow>
      (\<exists>doc base. authorizationMetadata cfg (nodeDiscoveryStrategy URL_parse) requestUrl = Inr doc
         \<and> base = protocol requestUrl @ ''//'' @ hostname requestUrl
                    @ '':'' @ digits_of (PORT cfg + 1)
         \<and> authorization_endpoint doc = base @ ''/authorize''
         \<and> token_endpoint doc = base @ ''/token''
         \<and> revocation_endpoint doc = base @ ''/revoke''))
 \<and> (truthy (AUTH_RESOURCE_URI cfg) \<and> URL_parse (the (AUTH_RESOURCE_URI cfg)) = Inr ru \<longrightarrow>
      (\<exists>doc doc' base.
           authorizationMetadata cfg (nodeDiscoveryStrategy URL_parse) requestUrl = Inr doc
         \<and> buildAuthApp_metadata URL_parse cfg request_url = Inr doc'
         \<and> base = protocol ru @ ''//'' @ hostname ru @ '':''
                    @ digits_of ((case port ru of
                                    Some p \<Rightarrow> p
                                  | None \<Rightarrow> if protocol ru = ''https:'' then 443 else 80) + 1)
         \<and> authorization_endpoint doc = base @ ''/authorize''
         \<and> token_endpoint doc = base @ ''/token''
         \<and> revocation_endpoint doc = base @ ''/revoke''
         \<and> authorization_endpoint doc' = base @ ''/authorize''
         \<and> token_endpoint doc' = base @ ''/token''
         \<and> revocation_endpoint doc' = base @ ''/revoke''))
 \<and> (\<not> truthy (AUTH_RESOURCE_URI cfg) \<and> URL_parse request_url = Inr here \<longrightarrow>
      (\<exists>doc' base. buildAuthApp_metadata URL_parse cfg request_url = Inr doc'
         \<and> base = protocol here @ ''//'' @ hostname here
                    @ (case port here of None \<Rightarrow> [] | Some p \<Rightarrow> '':'' @ digits_of p)
         \<and> authorization_endpoint doc' = base @ ''/authorize''
         \<and> token_endpoint doc' = base @ ''/token''
         \<and> revocation_endpoint doc' = base @ ''/revoke''))
 \<and> (truthy (AUTH_RESOURCE_URI cfg) \<and> URL_parse (the (AUTH_RESOURCE_URI cfg)) = Inl msg \<longrightarrow>
      authorizationMetadata cfg (nodeDiscoveryStrategy URL_parse) requestUrl = Inl msg
      \<and> buildAuthApp_metadata URL_parse cfg request_url = Inl msg)
 \<and> (\<not> truthy (AUTH_RESOURCE_URI cfg) \<and> URL_parse request_url = Inl msg \<longrightarrow>
      buildAuthApp_metadata URL_parse cfg request_url = Inl msg)
 \<and> authorizationMetadata (cfg\<lparr>OAUTH_AUTHORIZATION_URL := a, OAUTH_TOKEN_URL := b\<rparr>)
       workerDiscoveryStrategy requestUrl
     = authorizationMetadata cfg workerDiscoveryStrategy requestUrl
 \<and> authorizationMetadata (cfg\<lparr>OAUTH_AUTHORIZATION_URL := a, OAUTH_TOKEN_URL := b\<rparr>)
       (nodeDiscoveryStrategy URL_parse) requestUrl
     = authorizationMetadata cfg (nodeDiscoveryStrategy URL_parse) requestUrl
 \<and> buildAuthApp_metadata URL_parse (cfg\<lparr>OAUTH_AUTHORIZATION_URL := a, OAUTH_TOKEN_URL := b\<rparr>)
       request_url
     = buildAuthApp_metadata URL_parse cfg request_url"
  (is "?G \<and> ?W \<and> ?N1 \<and> ?R \<and> ?A1 \<and> ?F1 \<and> ?F2 \<and> ?I1 \<and> ?I2 \<and> ?I3")
proof -
  have G: ?G
    by (auto simp: authorizationMetadata_def buildAuthorizationServerMetadata_def
        split: sum.splits)
  have W: ?W
    by (simp add: authorizationMetadata_def workerDiscoveryStrategy_def
        buildAuthorizationServerMetadata_def url_origin_of_def url_host_def)
  have N1: ?N1
    by (simp add: authorizationMetadata_def nodeDiscoveryStrategy_def
        buildAuthorizationServerMetadata_def port_base_def)
  have R: ?R
    by (simp add: authorizationMetadata_def nodeDiscoveryStrategy_def
        buildAuthApp_metadata_def auth_app_base_def
        buildAuthorizationServerMetadata_def port_base_def next_port_def)
  have A1: ?A1
    by (simp add: buildAuthApp_metadata_def auth_app_base_def
        buildAuthorizationServerMetadata_def url_host_def)
  have F1: ?F1
    by (simp add: authorizationMetadata_def nodeDiscoveryStrategy_def
        buildAuthApp_metadata_def auth_app_base_def)
  have F2: ?F2
    by (simp add: buildAuthApp_metadata_def auth_app_base_def)
  have I1: ?I1
    by (simp add: authorizationMetadata_def workerDiscoveryStrategy_def discovery_scopes_def)
  have I2: ?I2
    by (simp add: authorizationMetadata_def nodeDiscoveryStrategy_def discovery_scopes_def
        split: sum.splits)
  have I3: ?I3
    by (auto simp: buildAuthApp_metadata_def auth_app_base_def split: sum.splits)
  from G W N1 R A1 F1 F2 I1 I2 I3 show ?thesis by blast
qed

text \<open>The theorem at the example request URL: the worker and node strategies and the auth
  server's route without \<open>AUTH_RESOURCE_URI\<close>, both with an https \<open>AUTH_RESOURCE_URI\<close> on
  the default port, and with one that does not parse.\<close>

theorem C6_metadata_witness:
  "(\<exists>doc. authorizationMetadata cfg_strict workerDiscoveryStrategy demo_url = Inr doc
        \<and> authorization_endpoint doc = ''http://localhost:3000/authorize''
        \<and> token_endpoint doc = ''http://localhost:3000/token''
        \<and> revocation_endpoint doc = ''http://localhost:3000/revoke'')
   \<and> (\<exists>doc. authorizationMetadata cfg_strict (nodeDiscoveryStrategy demo_URL_parse) demo_url
                = Inr doc
        \<and> authorization_endpoint doc = ''http://localhost:3001/authorize''
        \<and> token_endpoint doc = ''http://localhost:3001/token''
        \<and> revocation_endpoint doc = ''http://localhost:3001/revoke'')
   \<and> (\<exists>doc doc'.
          authorizationMetadata cfg_resource (nodeDiscoveryStrategy demo_URL_parse) demo_url
                = Inr doc
        \<and> buildAuthApp_metadata demo_URL_parse cfg_resource
             ''http://localhost:3000/.well-known/oauth-authorization-server'' = Inr doc'
        \<and> authorization_endpoint doc = ''https://mcp.example.com:444/authorize''
        \<and> token_endpoint doc = ''https://mcp.example.com:444/token''
        \<and> revocation_endpoint doc = ''https://mcp.example.com:444/revoke''
        \<and> authorization_endpoint doc' = ''https://mcp.example.com:444/authorize''
        \<and> token_endpoint doc' = ''https://mcp.example.com:444/token''
        \<and> revocation_endpoint doc' = ''https://mcp.example.com:444/revoke'')
   \<and> (\<exists>doc'. buildAuthApp_metadata demo_URL_parse cfg_strict
                 ''http://localhost:3000/.well-known/oauth-authorization-server'' = Inr doc'
        \<and> authorization_endpoint doc' = ''http://localhost:3000/authorize''
        \<and> token_endpoint doc' = ''http://localhost:3000/token''
        \<and> revocation_endpoint doc' = ''http://localhost:3000/revoke'')
   \<and> authorizationMetadata cfg_bad_resource (nodeDiscoveryStrategy demo_URL_parse) demo_url
       = Inl ''Invalid URL''
   \<and> buildAuthApp_metadata demo_URL_parse cfg_bad_resource
        ''http://localhost:3000/.well-known/oauth-authorization-server'' = Inl ''Invalid URL''
   \<and> buildAuthApp_metadata demo_URL_parse cfg_strict ''localhost'' = Inl ''Invalid URL''"
proof -
  let ?wk = "''http://localhost:3000/.well-known/oauth-authorization-server''"
  let ?node = "nodeDiscoveryStrategy demo_URL_parse"
  let ?ru = "\<lparr> protocol = ''https:'', hostname = ''mcp.example.com'', port = None \<rparr>"
  have d0: "digits_of 3000 = ''3000''" and d1: "digits_of 3001 = ''3001''"
    and d4: "digits_of 444 = ''444''"
    by code_simp+
  have n: "\<not> truthy (AUTH_RESOURCE_URI cfg_strict)" and pt: "PORT cfg_strict = 3000"
    by (simp_all add: cfg_strict_def truthy_def)
  have p1: "\<not> truthy (AUTH_RESOURCE_URI cfg_strict) \<and> demo_URL_parse ?wk = Inr demo_url"
    by (simp add: cfg_strict_def truthy_def demo_URL_parse_def)
  have p2: "truthy (AUTH_RESOURCE_URI cfg_resource)
            \<and> demo_URL_parse (the (AUTH_RESOURCE_URI cfg_resource)) = Inr ?ru"
    by (simp add: cfg_resource_def cfg_strict_def truthy_def demo_URL_parse_def)
  have p3: "truthy (AUTH_RESOURCE_URI cfg_bad_resource)
            \<and> demo_URL_parse (the (AUTH_RESOURCE_URI cfg_bad_resource)) = Inl ''Invalid URL''"
    by (simp add: cfg_bad_resource_def cfg_strict_def truthy_def demo_URL_parse_def)
  have p4: "\<not> truthy (AUTH_RESOURCE_URI cfg_strict)
            \<and> demo_URL_parse ''localhost'' = Inl ''Invalid URL''"
    by (simp add: cfg_strict_def truthy_def demo_URL_parse_def)
  note A = C6_metadata_advertises_proxy_endpoints[where cfg = cfg_strict and strat = ?node
             and requestUrl = demo_url and md = "demo_document []" and URL_parse = demo_URL_parse
             and ru = demo_url and request_url = ?wk and here = demo_url and msg = "[]"
             and a = "[]" and b = "[]"]
  note B = C6_metadata_advertises_proxy_endpoints[where cfg = cfg_resource and strat = ?node
             and requestUrl = demo_url and md = "demo_document []" and URL_parse = demo_URL_parse
             and ru = ?ru and request_url = ?wk and here = demo_url and msg = "[]"
             and a = "[]" and b = "[]"]
  note C = C6_metadata_advertises_proxy_endpoints[where cfg = cfg_bad_resource and strat = ?node
             and requestUrl = demo_url and md = "demo_document []" and URL_parse = demo_URL_parse
             and ru = demo_url and request_url = ?wk and here = demo_url
             and msg = "''Invalid URL''" and a = "[]" and b = "[]"]
  note D = C6_metadata_advertises_proxy_endpoints[where cfg = cfg_strict and strat = ?node
             and requestUrl = demo_url and md = "demo_document []" and URL_parse = demo_URL_parse
             and ru = demo_url and request_url = "''localhost''" and here = demo_url
             and msg = "''Invalid URL''" and a = "[]" and b = "[]"]
  have u: "protocol demo_url = ''http:''" "hostname demo_url = ''localhost''"
    "port demo_url = Some 3000"
    by (simp_all add: demo_url_def)
  from A have "\<exists>doc base. authorizationMetadata cfg_strict workerDiscoveryStrategy demo_url = Inr doc
         \<and> base = protocol demo_url @ ''//'' @ hostname demo_url
                    @ (case port demo_url of None \<Rightarrow> [] | Some p \<Rightarrow> '':'' @ digits_of p)
         \<and> authorization_endpoint doc = base @ ''/authorize''
         \<and> token_endpoint doc = base @ ''/token''
         \<and> revocation_endpoint doc = base @ ''/revoke''"
    by blast
  then have w: "\<exists>doc. authorizationMetadata cfg_strict workerDiscoveryStrategy demo_url = Inr doc
        \<and> authorization_endpoint doc = ''http://localhost:3000/authorize''
        \<and> token_endpoint doc = ''http://localhost:3000/token''
        \<and> revocation_endpoint doc = ''http://localhost:3000/revoke''"
    by (simp add: u d0)
  from A n have "\<exists>doc base. authorizationMetadata cfg_strict ?node demo_url = Inr doc
         \<and> base = protocol demo_url @ ''//'' @ hostname demo_url
                    @ '':'' @ digits_of (PORT cfg_strict + 1)
         \<and> authorization_endpoint doc = base @ ''/authorize''
         \<and> token_endpoint doc = base @ ''/token''
         \<and> revocation_endpoint doc = base @ ''/revoke''"
    by blast
  then have n1: "\<exists>doc. authorizationMetadata cfg_strict ?node demo_url = Inr doc
        \<and> authorization_endpoint doc = ''http://localhost:3001/authorize''
        \<and> token_endpoint doc = ''http://localhost:3001/token''
        \<and> revocation_endpoint doc = ''http://localhost:3001/revoke''"
    by (simp add: u pt d1)
  from B p2 have "\<exists>doc doc' base.
           authorizationMetadata cfg_resource ?node demo_url = Inr doc
         \<and> buildAuthApp_metadata demo_URL_parse cfg_resource ?wk = Inr doc'
         \<and> base = protocol ?ru @ ''//'' @ hostname ?ru @ '':''
                    @ digits_of ((case port ?ru of
                                    Some p \<Rightarrow> p
                                  | None \<Rightarrow> if protocol ?ru = ''https:'' then 443 else 80) + 1)
         \<and> authorization_endpoint doc = base @ ''/authorize''
         \<and> token_endpoint doc = base @ ''/token''
         \<and> revocation_endpoint doc = base @ ''/revoke''
         \<and> authorization_endpoint doc' = base @ ''/authorize''
         \<and> token_endpoint doc' = base @ ''/token''
         \<and> revocation_endpoint doc' = base @ ''/revoke''"
    by blast
  then have r: "\<exists>doc doc'. authorizationMetadata cfg_resource ?node demo_url = Inr doc
        \<and> buildAuthApp_metadata demo_URL_parse cfg_resource ?wk = Inr doc'
        \<and> authorization_endpoint doc = ''https://mcp.example.com:444/authorize''
        \<and> token_endpoint doc = ''https://mcp.example.com:444/token''
        \<and> revocation_endpoint doc = ''https://mcp.example.com:444/revoke''
        \<and> authorization_endpoint doc' = ''https://mcp.example.com:444/authorize''
        \<and> token_endpoint doc' = ''https://mcp.example.com:444/token''
        \<and> revocation_endpoint doc' = ''https://mcp.example.com:444/revoke''"
    by (simp add: d4)
  from A p1 have "\<exists>doc' base. buildAuthApp_metadata demo_URL_parse cfg_strict ?wk = Inr doc'
         \<and> base = protocol demo_url @ ''//'' @ hostname demo_url
                    @ (case port demo_url of None \<Rightarrow> [] | Some p \<Rightarrow> '':'' @ digits_of p)
         \<and> authorization_endpoint doc' = base @ ''/authorize''
         \<and> token_endpoint doc' = base @ ''/token''
         \<and> revocation_endpoint doc' = base @ ''/revoke''"
    by blast
  then have a1: "\<exists>doc'. buildAuthApp_metadata demo_URL_parse cfg_strict ?wk = Inr doc'
        \<and> authorization_endpoint doc' = ''http://localhost:3000/authorize''
        \<and> token_endpoint doc' = ''http://localhost:3000/token''
        \<and> revocation_endpoint doc' = ''http://localhost:3000/revoke''"
    by (simp add: u d0)
  have f1: "authorizationMetadata cfg_bad_resource ?node demo_url = Inl ''Invalid URL''
        \<and> buildAuthApp_metadata demo_URL_parse cfg_bad_resource ?wk = Inl ''Invalid URL''"
    using C p3 by blast
  have f2: "buildAuthApp_metadata demo_URL_parse cfg_strict ''localhost'' = Inl ''Invalid URL''"
    using D p4 by blast
  from w n1 r a1 f1 f2 show ?thesis by blast
qed


text \<open>
  The claim as stated fails for a configuration whose provider URLs are the proxy's own
  endpoints: the advertised authorization and token endpoints are then the configured
  provider URLs.
\<close>

theorem C6_counterexample:
  "OAUTH_AUTHORIZATION_URL cfg_own_endpoints = ''http://localhost:3000/authorize''
   \<and> OAUTH_TOKEN_URL cfg_own_endpoints = ''http://localhost:3000/token''
   \<and> authorizationMetadata cfg_own_endpoints workerDiscoveryStrategy demo_url
       = Inr (demo_document ''http://localhost:3000'')
   \<and> authorization_endpoint (demo_document ''http://localhost:3000'')
       = OAUTH_AUTHORIZATION_URL cfg_own_endpoints
   \<and> token_endpoint (demo_document ''http://localhost:3000'')
       = OAUTH_TOKEN_URL cfg_own_endpoints"
  by code_simp

end
